theory Spec2Isabelle
  imports Main "HOL-Library.Word" "HOL-Library.Sublist"
begin

section \<open>Settings directive injection: \<open>APISettings::Preprocess\<close>\<close>

text \<open>
  The embedded source is \<^verbatim>\<open>app/api/include/api/sonicpi_api.h\<close>. Apart from three inline
  clock helpers, the only function whose body lives in that header is
  \<^verbatim>\<open>APISettings::Preprocess\<close> (lines 225-253); the class \<^verbatim>\<open>SonicPiAPI\<close> is declared
  there, its member functions are defined elsewhere.
\<close>

subsection \<open>The settings record\<close>

text \<open>
  \<^verbatim>\<open>struct APISettings\<close>, lines 216-223. The C++ \<^verbatim>\<open>int\<close> field is a 32-bit two's
  complement word; \<^verbatim>\<open>-1\<close> is the word of all ones.
\<close>

record APISettings =
  logSynths :: bool
  logCues :: bool
  checkArgs :: bool
  enableExternalSynths :: bool
  timingGuarantees :: bool
  defaultMidiChannel :: "32 word"

text \<open>The default member initialisers of the struct (lines 218-223).\<close>

definition default_settings :: APISettings where
  "default_settings =
     \<lparr> logSynths = True, logCues = False, checkArgs = True,
       enableExternalSynths = True, timingGuarantees = False,
       defaultMidiChannel = - 1 \<rparr>"

subsection \<open>\<open>std::to_string(int)\<close>\<close>

text \<open>
  \<^verbatim>\<open>std::to_string(int)\<close> prints the signed value in base ten, as \<^verbatim>\<open>%d\<close> does: a minus
  sign for negative values, then the digits without leading zeros.
\<close>

fun digits :: "nat \<Rightarrow> string" where
  "digits n =
     (if n < 10 then [''0123456789'' ! n]
      else digits (n div 10) @ [''0123456789'' ! (n mod 10)])"

declare digits.simps [simp del]

definition to_string :: "32 word \<Rightarrow> string" where
  "to_string w =
     (if sint w < 0 then ''-'' @ digits (nat (- sint w)) else digits (nat (sint w)))"

text \<open>Reading a digit string back, used to say that \<open>digits\<close> is the decimal representation.\<close>

definition decimal_value :: "string \<Rightarrow> nat" where
  "decimal_value ds = foldl (\<lambda>acc c. 10 * acc + (of_char c - 48)) 0 ds"

subsection \<open>The directive strings and \<open>Preprocess\<close>\<close>

text \<open>The five string literals of lines 229, 234, 239, 244 and 249.\<close>

definition debug_directive :: string where
  "debug_directive = ''use_debug false #__nosave__ set by Qt GUI user preferences.\<newline>''"

definition cue_logging_directive :: string where
  "cue_logging_directive =
     ''use_cue_logging false #__nosave__ set by Qt GUI user preferences.\<newline>''"

definition arg_checks_directive :: string where
  "arg_checks_directive =
     ''use_arg_checks true #__nosave__ set by Qt GUI user preferences.\<newline>''"

definition external_synths_directive :: string where
  "external_synths_directive =
     ''use_external_synths true #__nosave__ set by Qt GUI user preferences.\<newline>''"

definition timing_guarantees_directive :: string where
  "timing_guarantees_directive =
     ''use_timing_guarantees true #__nosave__ set by Qt GUI user preferences.\<newline>''"

text \<open>
  The operand of line 252:
  \<^verbatim>\<open>(defaultMidiChannel == -1 ? "*" : std::to_string(defaultMidiChannel))\<close>.
\<close>

definition midi_channel_text :: "APISettings \<Rightarrow> string" where
  "midi_channel_text s =
     (if defaultMidiChannel s = - 1 then ''*'' else to_string (defaultMidiChannel s))"

text \<open>The text line 252 puts in front of the code.\<close>

definition midi_directive :: "APISettings \<Rightarrow> string" where
  "midi_directive s =
     ''use_midi_defaults channel: \"'' @ midi_channel_text s
       @ ''\" #__nosave__ set by Qt GUI user preferences.\<newline>''"

text \<open>
  \<^verbatim>\<open>void Preprocess(std::string& code) const\<close>: six statements in sequence, each
  replacing \<^verbatim>\<open>code\<close> by a literal followed by the old \<^verbatim>\<open>code\<close>. The model returns the
  final value of \<^verbatim>\<open>code\<close>.
\<close>

definition Preprocess :: "APISettings \<Rightarrow> string \<Rightarrow> string" where
  "Preprocess s code0 =
     (let code1 = (if \<not> logSynths s then debug_directive @ code0 else code0);
          code2 = (if \<not> logCues s then cue_logging_directive @ code1 else code1);
          code3 = (if checkArgs s then arg_checks_directive @ code2 else code2);
          code4 = (if enableExternalSynths s then external_synths_directive @ code3 else code3);
          code5 = (if timingGuarantees s then timing_guarantees_directive @ code4 else code4)
      in midi_directive s @ code5)"

subsection \<open>The call as a sequence of statements on the program state\<close>

text \<open>
  The state a call of \<^verbatim>\<open>Preprocess\<close> runs in: the receiver \<^verbatim>\<open>*this\<close>, the string the
  reference parameter \<^verbatim>\<open>code\<close> is bound to, and every other object of the program. No
  field of \<^verbatim>\<open>APISettings\<close> is a string, so the reference cannot be bound to a part of the
  receiver.
\<close>

record 'g machine =
  this_obj :: APISettings
  code_ref :: string
  elsewhere :: 'g

text \<open>
  The six statements of the body (lines 227-230, 232-235, 237-240, 242-245, 247-250 and
  252), each as the state it leaves behind, and the body as their sequence.
\<close>

definition stmt_logSynths :: "'g machine \<Rightarrow> 'g machine" where
  "stmt_logSynths m =
     (if \<not> logSynths (this_obj m) then m \<lparr> code_ref := debug_directive @ code_ref m \<rparr> else m)"

definition stmt_logCues :: "'g machine \<Rightarrow> 'g machine" where
  "stmt_logCues m =
     (if \<not> logCues (this_obj m) then m \<lparr> code_ref := cue_logging_directive @ code_ref m \<rparr>
      else m)"

definition stmt_checkArgs :: "'g machine \<Rightarrow> 'g machine" where
  "stmt_checkArgs m =
     (if checkArgs (this_obj m) then m \<lparr> code_ref := arg_checks_directive @ code_ref m \<rparr>
      else m)"

definition stmt_enableExternalSynths :: "'g machine \<Rightarrow> 'g machine" where
  "stmt_enableExternalSynths m =
     (if enableExternalSynths (this_obj m)
      then m \<lparr> code_ref := external_synths_directive @ code_ref m \<rparr> else m)"

definition stmt_timingGuarantees :: "'g machine \<Rightarrow> 'g machine" where
  "stmt_timingGuarantees m =
     (if timingGuarantees (this_obj m)
      then m \<lparr> code_ref := timing_guarantees_directive @ code_ref m \<rparr> else m)"

definition stmt_midi :: "'g machine \<Rightarrow> 'g machine" where
  "stmt_midi m =
     m \<lparr> code_ref :=
         ''use_midi_defaults channel: \"''
         @ (if defaultMidiChannel (this_obj m) = - 1 then ''*''
            else to_string (defaultMidiChannel (this_obj m)))
         @ ''\" #__nosave__ set by Qt GUI user preferences.\<newline>'' @ code_ref m \<rparr>"

definition Preprocess_exec :: "'g machine \<Rightarrow> 'g machine" where
  "Preprocess_exec m =
     stmt_midi (stmt_timingGuarantees (stmt_enableExternalSynths (stmt_checkArgs
       (stmt_logCues (stmt_logSynths m)))))"

subsection \<open>Lines of a text\<close>

text \<open>
  The lines of a text, each without its terminating newline; a last line without newline
  counts when it is not empty.
\<close>

fun lines_from :: "string \<Rightarrow> string \<Rightarrow> string list" where
  "lines_from cur [] = (if cur = [] then [] else [cur])"
| "lines_from cur (c # cs) =
     (if c = CHR 0x0A then cur # lines_from [] cs else lines_from (cur @ [c]) cs)"

definition split_lines :: "string \<Rightarrow> string list" where
  "split_lines t = lines_from [] t"

text \<open>The non-persistence marker the runtime looks for.\<close>

definition has_nosave :: "string \<Rightarrow> bool" where
  "has_nosave l = sublist ''#__nosave__'' l"

text \<open>
  The directive lines in the order in which they stand in the output (each with its
  newline): the MIDI line, written by the last statement, comes first.
\<close>

definition directive_block :: "APISettings \<Rightarrow> string list" where
  "directive_block s =
     [midi_directive s]
     @ (if timingGuarantees s then [timing_guarantees_directive] else [])
     @ (if enableExternalSynths s then [external_synths_directive] else [])
     @ (if checkArgs s then [arg_checks_directive] else [])
     @ (if \<not> logCues s then [cue_logging_directive] else [])
     @ (if \<not> logSynths s then [debug_directive] else [])"

text \<open>A directive is one line: it ends with a newline and has no other newline.\<close>

definition is_line :: "string \<Rightarrow> bool" where
  "is_line d = (d \<noteq> [] \<and> last d = CHR 0x0A \<and> CHR 0x0A \<notin> set (butlast d))"

section \<open>The session state machine of \<open>SonicPiAPI\<close>\<close>

text \<open>
  The header declares the class \<^verbatim>\<open>SonicPiAPI\<close>; the bodies of its member functions are in
  a translation unit that is not part of the embedded source. The states and the names of
  the operations are taken from the header, the behaviour from the specification.
\<close>


text \<open>
  The public member functions of \<^verbatim>\<open>SonicPiAPI\<close> (lines 263-316), by name. Their arguments
  play no part in the state guard.
\<close>

datatype api_op =
    Init | WaitForServer | Shutdown | Run | Stop | BufferNewLineAndIndent
  | AudioProcessor_Enable | AudioProcessor_EnableFFT | AudioProcessor_SetMaxFFTBuckets
  | AudioProcessor_ConsumedAudio | GetLogs | GetGuid | TestAudio | GetPath | GetPort
  | SendOSC | LoadWorkspaces | SaveWorkspaces | MaxWorkspaces | SaveAndRunBuffer
  | GetSettings | SetSettings

text \<open>
  Modelled from the spec: the error kinds of its section 7 (the header has no error type).
\<close>

datatype error_kind =
    PortDiscoveryFailed | ProcessLaunchFailed | ProcessDiedUnexpectedly
  | TransportBindFailed | ReadinessTimeout | MalformedMessage | PreconditionViolation











section \<open>The audio snapshot handoff\<close>

text \<open>
  \<^verbatim>\<open>struct ProcessedAudio\<close>, lines 95-101: arrays of two sample vectors and one mono vector.
  The sample type \<^verbatim>\<open>float\<close> is a parameter; no property below computes with samples.
\<close>

record 'f ProcessedAudio =
  m_spectrum :: "'f list \<times> 'f list"
  m_spectrumQuantized :: "'f list \<times> 'f list"
  m_samples :: "'f list \<times> 'f list"
  m_monoSamples :: "'f list"

text \<open>
  Modelled from the spec: the audio processor behind \<^verbatim>\<open>AudioProcessor_Enable\<close> and
  \<^verbatim>\<open>AudioProcessor_ConsumedAudio\<close>, whose class is only forward-declared in the header
  (sections 4.5 and 5). The pipeline keeps the snapshots that were published and not yet
  acknowledged, oldest first. Publishing while enabled replaces what is unread by the new
  snapshot (overwrite-latest, no queue); while disabled nothing is ingested;
  \<open>consumedAudio\<close> acknowledges the last published snapshot.
\<close>

datatype 'f audio_event = Enable bool | Publish "'f ProcessedAudio" | ConsumedAudio

record 'f pipeline =
  enabled :: bool
  unread :: "'f ProcessedAudio list"

fun audio_step :: "'f pipeline \<Rightarrow> 'f audio_event \<Rightarrow> 'f pipeline" where
  "audio_step p (Enable b) = p \<lparr> enabled := b \<rparr>"
| "audio_step p (Publish a) = (if enabled p then p \<lparr> unread := [a] \<rparr> else p)"
| "audio_step p ConsumedAudio = p \<lparr> unread := [] \<rparr>"

definition audio_run :: "'f pipeline \<Rightarrow> 'f audio_event list \<Rightarrow> 'f pipeline" where
  "audio_run p es = foldl audio_step p es"

text \<open>A pipeline that has published nothing yet, and a one-sample snapshot for evaluation.\<close>

definition fresh_pipeline :: "bool \<Rightarrow> 'f pipeline" where
  "fresh_pipeline b = \<lparr> enabled = b, unread = [] \<rparr>"

definition snapshot_of :: "int \<Rightarrow> int ProcessedAudio" where
  "snapshot_of x =
     \<lparr> m_spectrum = ([x], [x]), m_spectrumQuantized = ([x], [x]), m_samples = ([x], [x]),
       m_monoSamples = [x] \<rparr>"

section \<open>Properties of \<open>Preprocess\<close>\<close>

subsection \<open>Helper lemmas\<close>

lemma Preprocess_concat: "Preprocess s c = concat (directive_block s) @ c"
  by (simp add: Preprocess_def directive_block_def Let_def)

lemma Preprocess_append: "Preprocess s c = Preprocess s [] @ c"
  by (simp add: Preprocess_concat)

lemma digit_char_mem: "d < 10 \<Longrightarrow> ''0123456789'' ! d \<in> set ''0123456789''"
  by (rule nth_mem) simp

lemma digits_chars: "set (digits n) \<subseteq> set ''0123456789''"
proof (induction n rule: digits.induct)
  case (1 n)
  show ?case
  proof (cases "n < 10")
    case True
    then show ?thesis using digit_char_mem [of n] by (subst digits.simps) simp
  next
    case False
    have "n mod 10 < 10" by simp
    then have "''0123456789'' ! (n mod 10) \<in> set ''0123456789''" by (rule digit_char_mem)
    with False 1 show ?thesis by (subst digits.simps) simp
  qed
qed

lemma digits_nonempty: "digits n \<noteq> []"
  by (subst digits.simps) simp

lemma to_string_chars:
  assumes "c \<in> set (to_string w)"
  shows "c = CHR ''-'' \<or> c \<in> set ''0123456789''"
proof (cases "sint w < 0")
  case True
  then have "to_string w = CHR ''-'' # digits (nat (- sint w))"
    by (simp add: to_string_def)
  with assms have "c = CHR ''-'' \<or> c \<in> set (digits (nat (- sint w)))"
    by simp
  then show ?thesis using digits_chars by blast
next
  case False
  then have "to_string w = digits (nat (sint w))"
    by (simp add: to_string_def)
  with assms have "c \<in> set (digits (nat (sint w)))"
    by simp
  then show ?thesis using digits_chars by blast
qed

lemma to_string_no_newline: "CHR 0x0A \<notin> set (to_string w)"
proof
  assume "CHR 0x0A \<in> set (to_string w)"
  then have "CHR 0x0A = CHR ''-'' \<or> CHR 0x0A \<in> set ''0123456789''"
    by (rule to_string_chars)
  then show False by simp
qed

lemma to_string_not_star: "to_string w \<noteq> ''*''"
proof
  assume "to_string w = ''*''"
  then have "CHR ''*'' \<in> set (to_string w)" by simp
  then have "CHR ''*'' = CHR ''-'' \<or> CHR ''*'' \<in> set ''0123456789''"
    by (rule to_string_chars)
  then show False by simp
qed

lemma midi_channel_text_no_newline: "CHR 0x0A \<notin> set (midi_channel_text s)"
  by (simp add: midi_channel_text_def to_string_no_newline)

lemma lines_from_line:
  "CHR 0x0A \<notin> set xs \<Longrightarrow> lines_from cur (xs @ CHR 0x0A # rest) = (cur @ xs) # lines_from [] rest"
  by (induction xs arbitrary: cur) auto


lemma split_lines_line:
  assumes "is_line d"
  shows "split_lines (d @ t) = butlast d # split_lines t"
proof -
  from assms have ne: "d \<noteq> []" and la: "last d = CHR 0x0A"
    and nl: "CHR 0x0A \<notin> set (butlast d)"
    by (simp_all add: is_line_def)
  from ne la have "butlast d @ [CHR 0x0A] = d"
    using append_butlast_last_id [of d] by simp
  then have "d @ t = butlast d @ CHR 0x0A # t"
    by (metis append.assoc append_Cons append_Nil)
  moreover have "lines_from [] (butlast d @ CHR 0x0A # t) = butlast d # lines_from [] t"
    using lines_from_line [OF nl, of "[]" t] by simp
  ultimately show ?thesis
    by (simp only: split_lines_def)
qed

lemma split_lines_concat:
  "list_all is_line ds \<Longrightarrow> split_lines (concat ds @ t) = map butlast ds @ split_lines t"
  by (induction ds) (simp_all add: split_lines_line)

lemma split_lines_Nil: "split_lines [] = []"
  by (simp add: split_lines_def)

lemma is_line_debug: "is_line debug_directive"
  by (simp add: is_line_def debug_directive_def)

lemma is_line_cue: "is_line cue_logging_directive"
  by (simp add: is_line_def cue_logging_directive_def)

lemma is_line_args: "is_line arg_checks_directive"
  by (simp add: is_line_def arg_checks_directive_def)

lemma is_line_ext: "is_line external_synths_directive"
  by (simp add: is_line_def external_synths_directive_def)

lemma is_line_timing: "is_line timing_guarantees_directive"
  by (simp add: is_line_def timing_guarantees_directive_def)

lemma butlast_midi:
  "butlast (midi_directive s) =
     ''use_midi_defaults channel: \"'' @ midi_channel_text s
       @ ''\" #__nosave__ set by Qt GUI user preferences.''"
  by (simp add: midi_directive_def butlast_append)

lemma is_line_midi: "is_line (midi_directive s)"
  unfolding is_line_def butlast_midi
  by (simp add: midi_directive_def midi_channel_text_no_newline)

lemma directive_block_lines: "list_all is_line (directive_block s)"
  by (simp add: directive_block_def is_line_midi is_line_debug is_line_cue is_line_args
      is_line_ext is_line_timing)

lemma split_lines_block: "split_lines (Preprocess s []) = map butlast (directive_block s)"
  using split_lines_concat [OF directive_block_lines, of s "[]"]
  by (simp add: Preprocess_concat split_lines_Nil)

lemma nosave_debug: "has_nosave (butlast debug_directive)"
  by code_simp

lemma nosave_cue: "has_nosave (butlast cue_logging_directive)"
  by code_simp

lemma nosave_args: "has_nosave (butlast arg_checks_directive)"
  by code_simp

lemma nosave_ext: "has_nosave (butlast external_synths_directive)"
  by code_simp

lemma nosave_timing: "has_nosave (butlast timing_guarantees_directive)"
  by code_simp

lemma nosave_midi: "has_nosave (butlast (midi_directive s))"
proof -
  have "butlast (midi_directive s) =
      (''use_midi_defaults channel: \"'' @ midi_channel_text s @ ''\" '')
      @ ''#__nosave__'' @ '' set by Qt GUI user preferences.''"
    by (simp add: butlast_midi)
  then show ?thesis
    unfolding has_nosave_def by (simp only: sublist_appendI)
qed

lemma directive_block_nosave: "list_all has_nosave (map butlast (directive_block s))"
  by (simp add: directive_block_def nosave_midi nosave_debug nosave_cue nosave_args
      nosave_ext nosave_timing)

lemma directive_block_distinct: "distinct (directive_block s)"
  by (simp add: directive_block_def midi_directive_def debug_directive_def
      cue_logging_directive_def arg_checks_directive_def external_synths_directive_def
      timing_guarantees_directive_def)

lemma Preprocess_block_nonempty: "Preprocess s [] \<noteq> []"
  by (simp add: Preprocess_concat directive_block_def midi_directive_def)

lemma digit_value:
  assumes "d < 10"
  shows "of_char (''0123456789'' ! d) - 48 = d"
proof -
  from assms have "d = 0 \<or> d = 1 \<or> d = 2 \<or> d = 3 \<or> d = 4 \<or> d = 5 \<or> d = 6 \<or> d = 7
      \<or> d = 8 \<or> d = 9"
    by arith
  then show ?thesis
    by (elim disjE) simp_all
qed

lemma decimal_value_snoc:
  "decimal_value (ds @ [c]) = 10 * decimal_value ds + (of_char c - 48)"
  by (simp add: decimal_value_def)

lemma decimal_value_digits: "decimal_value (digits n) = n"
proof (induction n rule: digits.induct)
  case (1 n)
  show ?case
  proof (cases "n < 10")
    case True
    then have "digits n = [''0123456789'' ! n]"
      by (subst digits.simps) simp
    then show ?thesis
      using digit_value [OF True] by (simp add: decimal_value_def)
  next
    case False
    then have "digits n = digits (n div 10) @ [''0123456789'' ! (n mod 10)]"
      by (subst digits.simps) simp
    moreover have "of_char (''0123456789'' ! (n mod 10)) - 48 = n mod 10"
      by (rule digit_value) simp
    moreover from False 1 have "decimal_value (digits (n div 10)) = n div 10"
      by simp
    ultimately show ?thesis
      by (simp add: decimal_value_snoc)
  qed
qed

lemma is_line_butlast: "is_line d \<Longrightarrow> butlast d @ [CHR 0x0A] = d"
  using append_butlast_last_id [of d] by (simp add: is_line_def)

lemma concat_terminated:
  "list_all is_line ds \<Longrightarrow> concat (map (\<lambda>l. l @ [CHR 0x0A]) (map butlast ds)) = concat ds"
  by (induction ds) (simp_all add: is_line_butlast)

lemma to_string_decimal:
  "(0 \<le> sint w \<longrightarrow> decimal_value (to_string w) = nat (sint w))
   \<and> (sint w < 0 \<longrightarrow> to_string w = CHR ''-'' # tl (to_string w)
        \<and> decimal_value (tl (to_string w)) = nat (- sint w))"
  by (simp add: to_string_def decimal_value_digits)

subsection \<open>Order and number of the directive lines\<close>

text \<open>
  Claim C1, as amended. For every settings value and every code, the output of
  \<open>Preprocess\<close> is the MIDI-channel directive first, then one directive line for each toggle
  whose directive is triggered, in the fixed order timing guarantees (when
  \<open>timingGuarantees\<close> is set), external synths (when \<open>enableExternalSynths\<close> is set),
  argument checks (when \<open>checkArgs\<close> is set), cue logging (when \<open>logCues\<close> is clear), debug
  (when \<open>logSynths\<close> is clear), then the original code. The lines of the prepended block are
  exactly these directives, each a single line, and no directive occurs twice. The MIDI
  directive is the last one prepended, which makes it the first line of the output.
\<close>

theorem Preprocess_output_order:
  "Preprocess s c =
     midi_directive s
     @ (if timingGuarantees s then timing_guarantees_directive else [])
     @ (if enableExternalSynths s then external_synths_directive else [])
     @ (if checkArgs s then arg_checks_directive else [])
     @ (if \<not> logCues s then cue_logging_directive else [])
     @ (if \<not> logSynths s then debug_directive else [])
     @ c
   \<and> split_lines (Preprocess s []) = map butlast (directive_block s)
   \<and> list_all is_line (directive_block s)
   \<and> distinct (directive_block s)"
proof -
  have "Preprocess s c =
     midi_directive s
     @ (if timingGuarantees s then timing_guarantees_directive else [])
     @ (if enableExternalSynths s then external_synths_directive else [])
     @ (if checkArgs s then arg_checks_directive else [])
     @ (if \<not> logCues s then cue_logging_directive else [])
     @ (if \<not> logSynths s then debug_directive else [])
     @ c"
    by (simp add: Preprocess_def Let_def)
  then show ?thesis
    using split_lines_block directive_block_lines directive_block_distinct by blast
qed

text \<open>
  Claim C1, the amended statement at the default settings and the code \<open>play 60\<close>: the
  output read off character by character.
\<close>

theorem Preprocess_output_order_witness:
  "Preprocess default_settings ''play 60'' =
     ''use_midi_defaults channel: \"*\" #__nosave__ set by Qt GUI user preferences.\<newline>''
     @ ''use_external_synths true #__nosave__ set by Qt GUI user preferences.\<newline>''
     @ ''use_arg_checks true #__nosave__ set by Qt GUI user preferences.\<newline>''
     @ ''use_cue_logging false #__nosave__ set by Qt GUI user preferences.\<newline>''
     @ ''play 60''"
  using Preprocess_output_order [of default_settings "''play 60''"]
  by (simp add: default_settings_def midi_directive_def midi_channel_text_def
      external_synths_directive_def arg_checks_directive_def cue_logging_directive_def)

text \<open>
  Claim C1 as stated puts the MIDI-channel directive last, directly before the original
  code, and gives one line to each enabled toggle. With the default settings and the code
  \<open>play 60\<close> the output begins with the MIDI directive and does not end with the MIDI
  directive followed by the code; \<open>logSynths\<close> is enabled and has no line, \<open>logCues\<close> is
  disabled and has one.
\<close>

theorem midi_directive_not_last:
  "prefix (midi_directive default_settings) (Preprocess default_settings ''play 60'')
   \<and> \<not> suffix (midi_directive default_settings @ ''play 60'')
         (Preprocess default_settings ''play 60'')
   \<and> logSynths default_settings
   \<and> \<not> sublist ''use_debug'' (Preprocess default_settings ''play 60'')
   \<and> \<not> logCues default_settings
   \<and> sublist ''use_cue_logging false'' (Preprocess default_settings ''play 60'')"
  by code_simp

subsection \<open>Applying \<open>Preprocess\<close> twice\<close>

text \<open>
  Claim C2. For every settings value and every code, preprocessing the preprocessed code
  again with the same settings gives the once-preprocessed code with one more copy of the
  same directive block in front: the block, which is \<open>Preprocess s []\<close> and is never empty,
  then stands twice before the unchanged code.
\<close>

theorem Preprocess_twice:
  "Preprocess s (Preprocess s c) = Preprocess s [] @ Preprocess s c
   \<and> Preprocess s c = Preprocess s [] @ c
   \<and> Preprocess s (Preprocess s c) = Preprocess s [] @ Preprocess s [] @ c
   \<and> Preprocess s [] \<noteq> []"
proof -
  have one: "Preprocess s c = Preprocess s [] @ c"
    by (rule Preprocess_append)
  have two: "Preprocess s (Preprocess s c) = Preprocess s [] @ Preprocess s c"
    by (rule Preprocess_append)
  from one two have "Preprocess s (Preprocess s c) = Preprocess s [] @ Preprocess s [] @ c"
    by simp
  with one two Preprocess_block_nonempty show ?thesis
    by blast
qed

subsection \<open>Purity\<close>

lemma Preprocess_exec_eq:
  "Preprocess_exec m = m \<lparr> code_ref := Preprocess (this_obj m) (code_ref m) \<rparr>"
  by (simp add: Preprocess_exec_def stmt_midi_def stmt_timingGuarantees_def
      stmt_enableExternalSynths_def stmt_checkArgs_def stmt_logCues_def stmt_logSynths_def
      Preprocess_def Let_def midi_directive_def midi_channel_text_def)

text \<open>
  Claim C3. Running the six statements of \<open>Preprocess\<close> leaves the receiver, hence each of
  its six fields, as it was, and leaves every other object as it was; the only thing
  written is the string argument. What is written is determined by the settings and the
  code alone: two runs that start with equal settings and equal code end with equal code,
  whatever the rest of the two program states is.
\<close>

theorem Preprocess_pure:
  "this_obj (Preprocess_exec m) = this_obj m
   \<and> elsewhere (Preprocess_exec m) = elsewhere m
   \<and> code_ref (Preprocess_exec m) = Preprocess (this_obj m) (code_ref m)
   \<and> (this_obj m1 = this_obj m2 \<and> code_ref m1 = code_ref m2
        \<longrightarrow> code_ref (Preprocess_exec m1) = code_ref (Preprocess_exec m2))"
  by (simp add: Preprocess_exec_eq)

text \<open>
  Claim C3 on two states that agree on the settings (the defaults) and the code
  (\<open>play 60\<close>) and differ elsewhere.
\<close>

theorem Preprocess_pure_witness:
  "this_obj \<lparr> this_obj = default_settings, code_ref = ''play 60'', elsewhere = (0::nat) \<rparr>
     = this_obj \<lparr> this_obj = default_settings, code_ref = ''play 60'', elsewhere = (1::nat) \<rparr>
   \<and> code_ref \<lparr> this_obj = default_settings, code_ref = ''play 60'', elsewhere = (0::nat) \<rparr>
     = code_ref \<lparr> this_obj = default_settings, code_ref = ''play 60'', elsewhere = (1::nat) \<rparr>
   \<and> code_ref (Preprocess_exec
         \<lparr> this_obj = default_settings, code_ref = ''play 60'', elsewhere = (0::nat) \<rparr>)
     = code_ref (Preprocess_exec
         \<lparr> this_obj = default_settings, code_ref = ''play 60'', elsewhere = (1::nat) \<rparr>)
   \<and> this_obj (Preprocess_exec
         \<lparr> this_obj = default_settings, code_ref = ''play 60'', elsewhere = (0::nat) \<rparr>)
     = default_settings"
proof -
  note inst = Preprocess_pure
    [of "\<lparr> this_obj = default_settings, code_ref = ''play 60'', elsewhere = (0::nat) \<rparr>"
        "\<lparr> this_obj = default_settings, code_ref = ''play 60'', elsewhere = (0::nat) \<rparr>"
        "\<lparr> this_obj = default_settings, code_ref = ''play 60'', elsewhere = (1::nat) \<rparr>"]
  have same_obj:
    "this_obj \<lparr> this_obj = default_settings, code_ref = ''play 60'', elsewhere = (0::nat) \<rparr>
     = this_obj \<lparr> this_obj = default_settings, code_ref = ''play 60'', elsewhere = (1::nat) \<rparr>"
    by simp
  have same_code:
    "code_ref \<lparr> this_obj = default_settings, code_ref = ''play 60'', elsewhere = (0::nat) \<rparr>
     = code_ref \<lparr> this_obj = default_settings, code_ref = ''play 60'', elsewhere = (1::nat) \<rparr>"
    by simp
  have obj:
    "this_obj \<lparr> this_obj = default_settings, code_ref = ''play 60'', elsewhere = (0::nat) \<rparr>
     = default_settings"
    by simp
  from inst same_obj same_code obj show ?thesis
    by metis
qed

subsection \<open>The non-persistence marker\<close>

text \<open>
  Claim C4. For every combination of settings, the text that \<open>Preprocess\<close> puts before the
  code is a non-empty sequence of newline-terminated lines, and every one of these lines
  contains the marker \<open>#__nosave__\<close>.
\<close>

theorem directive_lines_nosave:
  "Preprocess s c = concat (map (\<lambda>l. l @ [CHR 0x0A]) (split_lines (Preprocess s []))) @ c
   \<and> split_lines (Preprocess s []) \<noteq> []
   \<and> (\<forall>l \<in> set (split_lines (Preprocess s [])). has_nosave l)"
proof -
  have "concat (map (\<lambda>l. l @ [CHR 0x0A]) (split_lines (Preprocess s []))) = concat (directive_block s)"
    using concat_terminated [OF directive_block_lines] by (simp only: split_lines_block)
  then have "Preprocess s c = concat (map (\<lambda>l. l @ [CHR 0x0A]) (split_lines (Preprocess s []))) @ c"
    by (simp only: Preprocess_concat)
  moreover have "split_lines (Preprocess s []) \<noteq> []"
    by (simp add: split_lines_block directive_block_def)
  moreover have "\<forall>l \<in> set (split_lines (Preprocess s [])). has_nosave l"
    using directive_block_nosave [of s] by (simp only: split_lines_block list_all_iff)
  ultimately show ?thesis
    by blast
qed

text \<open>
  Claim C4 at the default settings: the cue-logging directive is one of the prepended lines
  and carries the marker.
\<close>

theorem directive_lines_nosave_witness:
  "''use_cue_logging false #__nosave__ set by Qt GUI user preferences.''
     \<in> set (split_lines (Preprocess default_settings []))
   \<and> has_nosave ''use_cue_logging false #__nosave__ set by Qt GUI user preferences.''"
proof -
  have "''use_cue_logging false #__nosave__ set by Qt GUI user preferences.''
     \<in> set (split_lines (Preprocess default_settings []))"
    by code_simp
  then show ?thesis
    using directive_lines_nosave [of default_settings "[]"] by blast
qed

subsection \<open>The MIDI-channel directive\<close>

text \<open>
  Claim C10. For every settings value and every code the output starts with the
  MIDI-channel directive, whatever the toggles are. The channel text is \<open>*\<close> exactly when
  \<open>defaultMidiChannel\<close> is \<open>-1\<close>, and otherwise it is \<open>std::to_string\<close> of the field, its
  signed decimal representation: for a non-negative channel the text read as a decimal
  numeral is the channel, for a channel below \<open>-1\<close> it is a minus sign followed by the
  numeral of the absolute value. With the default settings the prepended block consists
  of exactly four lines: MIDI channel \<open>*\<close>, external synths on, argument checks on, cue
  logging off.
\<close>

theorem midi_directive_unconditional:
  "prefix (''use_midi_defaults channel: \"'' @ midi_channel_text s
          @ ''\" #__nosave__ set by Qt GUI user preferences.\<newline>'') (Preprocess s c)
   \<and> (midi_channel_text s = ''*'' \<longleftrightarrow> defaultMidiChannel s = - 1)
   \<and> (defaultMidiChannel s \<noteq> - 1 \<longrightarrow> midi_channel_text s = to_string (defaultMidiChannel s))
   \<and> (defaultMidiChannel s \<noteq> - 1 \<and> 0 \<le> sint (defaultMidiChannel s)
      \<longrightarrow> decimal_value (midi_channel_text s) = nat (sint (defaultMidiChannel s)))
   \<and> (sint (defaultMidiChannel s) < - 1
      \<longrightarrow> midi_channel_text s = CHR ''-'' # tl (midi_channel_text s)
          \<and> decimal_value (tl (midi_channel_text s)) = nat (- sint (defaultMidiChannel s)))
   \<and> Preprocess default_settings c =
       ''use_midi_defaults channel: \"*\" #__nosave__ set by Qt GUI user preferences.\<newline>''
       @ ''use_external_synths true #__nosave__ set by Qt GUI user preferences.\<newline>''
       @ ''use_arg_checks true #__nosave__ set by Qt GUI user preferences.\<newline>''
       @ ''use_cue_logging false #__nosave__ set by Qt GUI user preferences.\<newline>''
       @ c
   \<and> split_lines (Preprocess default_settings []) =
       [''use_midi_defaults channel: \"*\" #__nosave__ set by Qt GUI user preferences.'',
        ''use_external_synths true #__nosave__ set by Qt GUI user preferences.'',
        ''use_arg_checks true #__nosave__ set by Qt GUI user preferences.'',
        ''use_cue_logging false #__nosave__ set by Qt GUI user preferences.'']"
proof -
  have "Preprocess s c = midi_directive s @ drop (length (midi_directive s)) (Preprocess s c)"
    by (simp add: Preprocess_def Let_def)
  then have "prefix (midi_directive s) (Preprocess s c)"
    by (metis prefixI)
  then have p: "prefix (''use_midi_defaults channel: \"'' @ midi_channel_text s
          @ ''\" #__nosave__ set by Qt GUI user preferences.\<newline>'') (Preprocess s c)"
    by (simp only: midi_directive_def)
  have star: "midi_channel_text s = ''*'' \<longleftrightarrow> defaultMidiChannel s = - 1"
    using to_string_not_star [of "defaultMidiChannel s"] by (simp add: midi_channel_text_def)
  have dec: "defaultMidiChannel s \<noteq> - 1 \<longrightarrow> midi_channel_text s = to_string (defaultMidiChannel s)"
    by (simp add: midi_channel_text_def)
  have below: "sint (defaultMidiChannel s) < - 1 \<Longrightarrow> defaultMidiChannel s \<noteq> - 1"
    by auto
  have pos: "defaultMidiChannel s \<noteq> - 1 \<and> 0 \<le> sint (defaultMidiChannel s)
      \<longrightarrow> decimal_value (midi_channel_text s) = nat (sint (defaultMidiChannel s))"
    using to_string_decimal [of "defaultMidiChannel s"] by (simp add: midi_channel_text_def)
  have neg: "sint (defaultMidiChannel s) < - 1
      \<longrightarrow> midi_channel_text s = CHR ''-'' # tl (midi_channel_text s)
          \<and> decimal_value (tl (midi_channel_text s)) = nat (- sint (defaultMidiChannel s))"
    using to_string_decimal [of "defaultMidiChannel s"] below
    by (auto simp: midi_channel_text_def)
  have dflt: "Preprocess default_settings c =
       ''use_midi_defaults channel: \"*\" #__nosave__ set by Qt GUI user preferences.\<newline>''
       @ ''use_external_synths true #__nosave__ set by Qt GUI user preferences.\<newline>''
       @ ''use_arg_checks true #__nosave__ set by Qt GUI user preferences.\<newline>''
       @ ''use_cue_logging false #__nosave__ set by Qt GUI user preferences.\<newline>''
       @ c"
    by (simp add: Preprocess_def Let_def default_settings_def midi_directive_def
        midi_channel_text_def external_synths_directive_def arg_checks_directive_def
        cue_logging_directive_def)
  have four: "split_lines (Preprocess default_settings []) =
       [''use_midi_defaults channel: \"*\" #__nosave__ set by Qt GUI user preferences.'',
        ''use_external_synths true #__nosave__ set by Qt GUI user preferences.'',
        ''use_arg_checks true #__nosave__ set by Qt GUI user preferences.'',
        ''use_cue_logging false #__nosave__ set by Qt GUI user preferences.'']"
    by code_simp
  from p star dec pos neg dflt four show ?thesis
    by blast
qed

text \<open>
  Claim C10 with the channel set to 3 and to -2: the channel texts are the decimal numerals
  \<open>3\<close> and \<open>-2\<close>.
\<close>

theorem midi_directive_unconditional_witness:
  "defaultMidiChannel (default_settings \<lparr> defaultMidiChannel := 3 \<rparr>) \<noteq> - 1
   \<and> 0 \<le> sint (defaultMidiChannel (default_settings \<lparr> defaultMidiChannel := 3 \<rparr>))
   \<and> midi_channel_text (default_settings \<lparr> defaultMidiChannel := 3 \<rparr>) = ''3''
   \<and> decimal_value (midi_channel_text (default_settings \<lparr> defaultMidiChannel := 3 \<rparr>)) = 3
   \<and> prefix ''use_midi_defaults channel: \"3\" #__nosave__ set by Qt GUI user preferences.\<newline>''
        (Preprocess (default_settings \<lparr> defaultMidiChannel := 3 \<rparr>) ''play 60'')
   \<and> sint (defaultMidiChannel (default_settings \<lparr> defaultMidiChannel := - 2 \<rparr>)) < - 1
   \<and> midi_channel_text (default_settings \<lparr> defaultMidiChannel := - 2 \<rparr>) = ''-2''
   \<and> decimal_value (tl (midi_channel_text (default_settings \<lparr> defaultMidiChannel := - 2 \<rparr>))) = 2"
proof -
  define s3 where "s3 = default_settings \<lparr> defaultMidiChannel := 3 \<rparr>"
  define sm where "sm = default_settings \<lparr> defaultMidiChannel := - 2 \<rparr>"
  note inst3 = midi_directive_unconditional [of s3 "''play 60''"]
  note instm = midi_directive_unconditional [of sm "''play 60''"]
  have ne: "defaultMidiChannel s3 \<noteq> - 1"
    by (simp add: s3_def)
  have nonneg: "0 \<le> sint (defaultMidiChannel s3)"
    by (simp add: s3_def)
  have val3: "nat (sint (defaultMidiChannel s3)) = 3"
    by (simp add: s3_def)
  have three: "to_string (defaultMidiChannel s3) = ''3''"
    unfolding s3_def by code_simp
  from inst3 ne have "midi_channel_text s3 = to_string (defaultMidiChannel s3)"
    by blast
  with three have ch3: "midi_channel_text s3 = ''3''"
    by (simp only:)
  from inst3 ne nonneg
  have "decimal_value (midi_channel_text s3) = nat (sint (defaultMidiChannel s3))"
    by blast
  with val3 have dec3: "decimal_value (midi_channel_text s3) = 3"
    by (simp only:)
  from inst3 have "prefix (''use_midi_defaults channel: \"'' @ midi_channel_text s3
          @ ''\" #__nosave__ set by Qt GUI user preferences.\<newline>'') (Preprocess s3 ''play 60'')"
    by blast
  then have pre3: "prefix
        ''use_midi_defaults channel: \"3\" #__nosave__ set by Qt GUI user preferences.\<newline>''
        (Preprocess s3 ''play 60'')"
    unfolding ch3 by (simp only: append.simps)
  have below: "sint (defaultMidiChannel sm) < - 1"
    by (simp add: sm_def)
  have nem: "defaultMidiChannel sm \<noteq> - 1"
    by (simp add: sm_def)
  have valm: "nat (- sint (defaultMidiChannel sm)) = 2"
    by (simp add: sm_def)
  have minus_two: "to_string (defaultMidiChannel sm) = ''-2''"
    unfolding sm_def by code_simp
  from instm nem have "midi_channel_text sm = to_string (defaultMidiChannel sm)"
    by blast
  with minus_two have chm: "midi_channel_text sm = ''-2''"
    by (simp only:)
  from instm below
  have "decimal_value (tl (midi_channel_text sm)) = nat (- sint (defaultMidiChannel sm))"
    by blast
  with valm have decm: "decimal_value (tl (midi_channel_text sm)) = 2"
    by (simp only:)
  from ne nonneg ch3 dec3 pre3 below chm decm show ?thesis
    unfolding s3_def sm_def by blast
qed

section \<open>Properties of the session state machine\<close>









section \<open>Properties of the audio snapshot handoff\<close>

lemma audio_step_bound: "length (unread p) \<le> 1 \<Longrightarrow> length (unread (audio_step p e)) \<le> 1"
  by (cases e) simp_all

lemma audio_run_bound:
  "length (unread p) \<le> 1 \<Longrightarrow> length (unread (audio_run p es)) \<le> 1"
  unfolding audio_run_def
proof (induction es arbitrary: p)
  case Nil
  then show ?case by simp
next
  case (Cons e es)
  from Cons.prems have "length (unread (audio_step p e)) \<le> 1"
    by (rule audio_step_bound)
  then have "length (unread (foldl audio_step (audio_step p e) es)) \<le> 1"
    by (rule Cons.IH)
  then show ?case by simp
qed

lemma audio_run_snoc: "audio_run p (es @ [e]) = audio_step (audio_run p es) e"
  by (simp add: audio_run_def)

text \<open>
  Claim C8. Whatever the interleaving of enabling, publishing and \<open>consumedAudio\<close> calls,
  starting from a pipeline that has published nothing, at most one snapshot is unread; and
  when the pipeline is enabled, a newly published snapshot is afterwards the only unread
  one, whether or not the previous one was consumed.
\<close>

theorem one_unread_snapshot:
  "length (unread (audio_run (fresh_pipeline b) es)) \<le> 1
   \<and> (enabled (audio_run (fresh_pipeline b) es)
        \<longrightarrow> unread (audio_run (fresh_pipeline b) (es @ [Publish a])) = [a])"
proof -
  have "length (unread (audio_run (fresh_pipeline b :: 'a pipeline) es)) \<le> 1"
    by (rule audio_run_bound) (simp add: fresh_pipeline_def)
  then show ?thesis
    by (simp add: audio_run_snoc)
qed

text \<open>
  Claim C8 on a run where two snapshots are published and none consumed: a third one
  replaces them.
\<close>

theorem one_unread_snapshot_witness:
  "enabled (audio_run (fresh_pipeline False)
      [Enable True, Publish (snapshot_of 1), Publish (snapshot_of 2)])
   \<and> unread (audio_run (fresh_pipeline False)
      ([Enable True, Publish (snapshot_of 1), Publish (snapshot_of 2)]
        @ [Publish (snapshot_of 3)])) = [snapshot_of 3]
   \<and> length (unread (audio_run (fresh_pipeline False)
      [Enable True, Publish (snapshot_of 1), Publish (snapshot_of 2)])) \<le> 1"
  using one_unread_snapshot [of False
      "[Enable True, Publish (snapshot_of 1), Publish (snapshot_of 2)]" "snapshot_of 3"]
  by (simp add: audio_run_def fresh_pipeline_def)

end
